theory Spec2Isabelle
  imports Main
begin

section \<open>Values shared by the session manager and the authenticator\<close>

text \<open>
  Exceptions are values. Every exception the modelled code can meet (Playwright's errors
  and timeouts, \<open>OSError\<close>, \<open>json.JSONDecodeError\<close>, \<open>ValueError\<close>, \<open>TypeError\<close>,
  \<open>AttributeError\<close>) is a subclass of Python's \<open>Exception\<close>, so \<open>except Exception\<close> and a
  bare \<open>except:\<close> catch the same values here.
\<close>

datatype exc =
    PlaywrightError
  | TimeoutError
  | OSError
  | JSONDecodeError
  | ValueError
  | TypeError
  | AttributeError

text \<open>
  What \<open>json.load\<close> returns and \<open>json.dump\<close> accepts. A dict keeps its insertion order, so it
  is an association list. A float is carried by its \<open>repr\<close>, which is what \<open>json\<close> writes and
  reads back; the code never computes with one.
\<close>

datatype json =
    JNull
  | JBool bool
  | JInt int
  | JFloat string
  | JStr string
  | JArr "json list"
  | JObj "(string \<times> json) list"

text \<open>\<open>d.get(k)\<close>: the value stored under \<open>k\<close>, if any.\<close>

fun dict_get :: "(string \<times> json) list \<Rightarrow> string \<Rightarrow> json option" where
  "dict_get [] k = None"
| "dict_get ((k', v) # d) k = (if k' = k then Some v else dict_get d k)"

text \<open>\<open>d[k] = v\<close>: an existing key keeps its position, a new key goes to the end.\<close>

fun dict_set :: "(string \<times> json) list \<Rightarrow> string \<Rightarrow> json \<Rightarrow> (string \<times> json) list" where
  "dict_set [] k v = [(k, v)]"
| "dict_set ((k', v') # d) k v = (if k' = k then (k, v) # d else (k', v') # dict_set d k v)"

section \<open>Time\<close>

text \<open>
  A naive \<open>datetime\<close> is a count of microseconds; an offset-aware one carries its offset as
  well. \<open>datetime.now()\<close> is always naive. Comparing or subtracting a naive and an aware value
  raises \<open>TypeError\<close>.
\<close>

datatype datetime = Naive int | Aware int int



definition dt_gt :: "datetime \<Rightarrow> datetime \<Rightarrow> exc + bool" where
  "dt_gt a b =
     (case (a, b) of
        (Naive s, Naive t) \<Rightarrow> Inr (s > t)
      | (Aware s _, Aware t _) \<Rightarrow> Inr (s > t)
      | _ \<Rightarrow> Inl TypeError)"

definition dt_sub :: "datetime \<Rightarrow> datetime \<Rightarrow> exc + int" where
  "dt_sub a b =
     (case (a, b) of
        (Naive s, Naive t) \<Rightarrow> Inr (s - t)
      | (Aware s _, Aware t _) \<Rightarrow> Inr (s - t)
      | _ \<Rightarrow> Inl TypeError)"

text \<open>
  \<open>datetime.isoformat\<close> and \<open>datetime.fromisoformat\<close> belong to Python's standard library,
  not to this repository: the functions below take them as a parameter. The only fact
  about them that any theorem assumes is that parsing undoes formatting on naive values.
\<close>

record pylib =
  isoformat :: "datetime \<Rightarrow> string"
  fromisoformat :: "string \<Rightarrow> exc + datetime"


text \<open>\<open>datetime.fromisoformat(x)\<close> for a value taken out of a JSON dict: \<open>TypeError\<close> unless a str.\<close>

definition fromisoformat_json :: "pylib \<Rightarrow> json \<Rightarrow> exc + datetime" where
  "fromisoformat_json lib v = (case v of JStr s \<Rightarrow> fromisoformat lib s | _ \<Rightarrow> Inl TypeError)"

section \<open>The persisted pair\<close>

text \<open>
  The two artifacts \<open>scraping/session/cookies.json\<close> and
  \<open>scraping/session/session_info.json\<close>. A file is absent (\<open>None\<close>), holds a JSON document, or
  holds something \<open>open\<close> followed by \<open>json.load\<close> raises on (\<open>Garbage\<close>). Opening a file for
  writing raises \<open>OSError\<close> when it is not writable, and then leaves it as it was.
\<close>

datatype filedata = Json json | Garbage

record store =
  cookies_file :: "filedata option"
  session_info_file :: "filedata option"
  cookies_writable :: bool
  session_info_writable :: bool

definition read_json :: "filedata option \<Rightarrow> exc + json" where
  "read_json f =
     (case f of
        None \<Rightarrow> Inl OSError
      | Some Garbage \<Rightarrow> Inl JSONDecodeError
      | Some (Json j) \<Rightarrow> Inr j)"

definition write_cookies :: "json \<Rightarrow> store \<Rightarrow> exc + store" where
  "write_cookies j st =
     (if cookies_writable st then Inr (st\<lparr>cookies_file := Some (Json j)\<rparr>) else Inl OSError)"

definition write_session_info :: "json \<Rightarrow> store \<Rightarrow> exc + store" where
  "write_session_info j st =
     (if session_info_writable st then Inr (st\<lparr>session_info_file := Some (Json j)\<rparr>)
      else Inl OSError)"

section \<open>SessionManager (session_manager.py)\<close>

text \<open>
  \<open>settings.auth.session_timeout\<close>, \<open>settings.target_site.login_url\<close> and
  \<open>settings.target_site.base_url\<close>: the three settings the modelled code reads.
\<close>

record settings =
  session_timeout :: int
  login_url :: string
  base_url :: string



text \<open>
  \<open>is_session_valid\<close>: \<open>is_session_valid_try\<close> is the body of the \<open>try\<close>, \<open>now\<close> the reading of
  \<open>datetime.now()\<close>; the handler turns every exception into \<open>False\<close>.
  \<open>session_info.get('expires_at', '')\<close> raises \<open>AttributeError\<close> on a document that is not a
  dict.
\<close>

definition json_get :: "json \<Rightarrow> string \<Rightarrow> json \<Rightarrow> exc + json" where
  "json_get j k dflt =
     (case j of
        JObj d \<Rightarrow> Inr (case dict_get d k of None \<Rightarrow> dflt | Some v \<Rightarrow> v)
      | _ \<Rightarrow> Inl AttributeError)"

definition is_session_valid_try :: "pylib \<Rightarrow> store \<Rightarrow> int \<Rightarrow> exc + bool" where
  "is_session_valid_try lib st now =
     (if session_info_file st = None then Inr False
      else
        case read_json (session_info_file st) of
          Inl e \<Rightarrow> Inl e
        | Inr session_info \<Rightarrow>
            (case json_get session_info ''expires_at'' (JStr '''') of
               Inl e \<Rightarrow> Inl e
             | Inr v \<Rightarrow>
                 (case fromisoformat_json lib v of
                    Inl e \<Rightarrow> Inl e
                  | Inr expires_at \<Rightarrow>
                      (case dt_gt (Naive now) expires_at of
                         Inl e \<Rightarrow> Inl e
                       | Inr expired \<Rightarrow> Inr (\<not> expired)))))"

definition is_session_valid :: "pylib \<Rightarrow> store \<Rightarrow> int \<Rightarrow> bool" where
  "is_session_valid lib st now =
     (case is_session_valid_try lib st now of Inl e \<Rightarrow> False | Inr b \<Rightarrow> b)"

text \<open>
  \<open>load_session\<close>: \<open>None\<close>, or the pair \<open>(cookies, session_info)\<close> of the returned dict.
  \<open>now\<close> is the one clock reading, made inside \<open>is_session_valid\<close>.
\<close>

definition load_session_try :: "pylib \<Rightarrow> store \<Rightarrow> int \<Rightarrow> exc + (json \<times> json) option" where
  "load_session_try lib st now =
     (if \<not> is_session_valid lib st now then Inr None
      else
        case (if cookies_file st \<noteq> None then read_json (cookies_file st) else Inr (JArr [])) of
          Inl e \<Rightarrow> Inl e
        | Inr cookies \<Rightarrow>
            (case (if session_info_file st \<noteq> None then read_json (session_info_file st)
                   else Inr (JObj [])) of
               Inl e \<Rightarrow> Inl e
             | Inr session_info \<Rightarrow> Inr (Some (cookies, session_info))))"

definition load_session :: "pylib \<Rightarrow> store \<Rightarrow> int \<Rightarrow> (json \<times> json) option" where
  "load_session lib st now =
     (case load_session_try lib st now of Inl e \<Rightarrow> None | Inr r \<Rightarrow> r)"

text \<open>
  \<open>update_last_activity\<close>: \<open>session_info['last_activity'] = ...\<close> raises \<open>TypeError\<close> on a
  document that is not a dict. The handler logs and returns, so the store stays as the
  failure left it.
\<close>

definition json_set :: "json \<Rightarrow> string \<Rightarrow> json \<Rightarrow> exc + json" where
  "json_set j k v = (case j of JObj d \<Rightarrow> Inr (JObj (dict_set d k v)) | _ \<Rightarrow> Inl TypeError)"

definition update_last_activity_try :: "pylib \<Rightarrow> int \<Rightarrow> store \<Rightarrow> exc + store" where
  "update_last_activity_try lib now st =
     (if session_info_file st = None then Inr st
      else
        case read_json (session_info_file st) of
          Inl e \<Rightarrow> Inl e
        | Inr session_info \<Rightarrow>
            (case json_set session_info ''last_activity'' (JStr (isoformat lib (Naive now))) of
               Inl e \<Rightarrow> Inl e
             | Inr session_info' \<Rightarrow> write_session_info session_info' st))"

definition update_last_activity :: "pylib \<Rightarrow> int \<Rightarrow> store \<Rightarrow> store" where
  "update_last_activity lib now st =
     (case update_last_activity_try lib now st of Inl e \<Rightarrow> st | Inr st' \<Rightarrow> st')"

text \<open>
  \<open>get_session_status\<close>: the returned dict, by its \<open>status\<close>. \<open>now1\<close> is the clock reading made
  inside \<open>is_session_valid\<close>, \<open>now2\<close> the one the remaining time is computed from. The
  remaining time is kept in microseconds; \<open>total_seconds()\<close> is this count over \<open>10^6\<close>.
\<close>

datatype session_status =
    ExpiredOrMissing
  | Active string string string int json
  | StatusError exc

fun is_valid :: "session_status \<Rightarrow> bool" where
  "is_valid ExpiredOrMissing = False"
| "is_valid (Active created expires lastact remaining info) = True"
| "is_valid (StatusError e) = False"

definition get_session_status_try :: "pylib \<Rightarrow> store \<Rightarrow> int \<Rightarrow> int \<Rightarrow> exc + session_status" where
  "get_session_status_try lib st now1 now2 =
     (if \<not> is_session_valid lib st now1 then Inr ExpiredOrMissing
      else
        case read_json (session_info_file st) of
          Inl e \<Rightarrow> Inl e
        | Inr session_info \<Rightarrow>
       (case json_get session_info ''created_at'' (JStr '''') of Inl e \<Rightarrow> Inl e | Inr c \<Rightarrow>
       (case fromisoformat_json lib c of Inl e \<Rightarrow> Inl e | Inr created_at \<Rightarrow>
       (case json_get session_info ''expires_at'' (JStr '''') of Inl e \<Rightarrow> Inl e | Inr x \<Rightarrow>
       (case fromisoformat_json lib x of Inl e \<Rightarrow> Inl e | Inr expires_at \<Rightarrow>
       (case json_get session_info ''last_activity'' (JStr '''') of Inl e \<Rightarrow> Inl e | Inr l \<Rightarrow>
       (case fromisoformat_json lib l of Inl e \<Rightarrow> Inl e | Inr last_activity \<Rightarrow>
       (case dt_sub expires_at (Naive now2) of Inl e \<Rightarrow> Inl e | Inr remaining_time \<Rightarrow>
       (case json_get session_info ''user_info'' (JObj []) of Inl e \<Rightarrow> Inl e | Inr info \<Rightarrow>
          Inr (Active (isoformat lib created_at) (isoformat lib expires_at)
                 (isoformat lib last_activity) (max 0 remaining_time) info))))))))))"

definition get_session_status :: "pylib \<Rightarrow> store \<Rightarrow> int \<Rightarrow> int \<Rightarrow> session_status" where
  "get_session_status lib st now1 now2 =
     (case get_session_status_try lib st now1 now2 of Inl e \<Rightarrow> StatusError e | Inr s \<Rightarrow> s)"

section \<open>TradeIslandAuthenticator (authenticator.py)\<close>

subsection \<open>The browser\<close>

text \<open>
  Playwright's page and browser context are the environment: \<open>'w\<close> is whatever state the
  browser and the remote site have, and each call returns its result (or the exception it
  raises) with the next state. An element handle is opaque and truthy.
\<close>

type_synonym handle = nat

record 'w page =
  goto :: "string \<Rightarrow> 'w \<Rightarrow> (exc + unit) \<times> 'w"
  wait_for_load_state :: "'w \<Rightarrow> (exc + unit) \<times> 'w"
  url :: "'w \<Rightarrow> string"
  wait_for_selector :: "string \<Rightarrow> nat \<Rightarrow> 'w \<Rightarrow> (exc + handle option) \<times> 'w"
  fill :: "handle \<Rightarrow> string \<Rightarrow> 'w \<Rightarrow> (exc + unit) \<times> 'w"
  click :: "handle \<Rightarrow> 'w \<Rightarrow> (exc + unit) \<times> 'w"
  cookies :: "'w \<Rightarrow> (exc + json list) \<times> 'w"
  add_cookies :: "json \<Rightarrow> 'w \<Rightarrow> (exc + unit) \<times> 'w"

text \<open>
  The log messages of the authenticator, by what they say, and the calls it makes on the
  browser. The trace is the sequence of calls and log records of a run, oldest first; a
  probe is recorded with its outcome. The source keeps no such list: it is what a test
  double of the page and of the logger would record.
\<close>

datatype logmsg =
    LoginPageAccessed
  | AlreadyLoggedIn
  | EmailFieldNotFound
  | EmailEntered
  | PasswordFieldNotFound
  | PasswordEntered
  | LoginButtonNotFound
  | LoginButtonClicked
  | LoginSucceeded
  | LoginFailed
  | LoginException exc
  | SessionSaved
  | SessionSaveError exc
  | SessionRestored
  | SessionRestoreError exc

datatype event =
    Goto string
  | WaitLoad
  | Probe string nat "exc + handle option"
  | Fill handle string
  | Click handle
  | GetCookies
  | AddCookies json
  | LogInfo logmsg
  | LogError logmsg

record 'w auth =
  world :: 'w
  files :: store
  trace :: "event list"

definition emit :: "event \<Rightarrow> 'w auth \<Rightarrow> 'w auth" where
  "emit e s = s\<lparr>trace := trace s @ [e]\<rparr>"

definition log_info :: "logmsg \<Rightarrow> 'w auth \<Rightarrow> 'w auth" where
  "log_info m = emit (LogInfo m)"

definition log_error :: "logmsg \<Rightarrow> 'w auth \<Rightarrow> 'w auth" where
  "log_error m = emit (LogError m)"

definition page_goto :: "'w page \<Rightarrow> string \<Rightarrow> 'w auth \<Rightarrow> (exc + unit) \<times> 'w auth" where
  "page_goto br u s =
     (case goto br u (world s) of (r, w) \<Rightarrow> (r, emit (Goto u) (s\<lparr>world := w\<rparr>)))"

definition page_wait_for_load_state :: "'w page \<Rightarrow> 'w auth \<Rightarrow> (exc + unit) \<times> 'w auth" where
  "page_wait_for_load_state br s =
     (case wait_for_load_state br (world s) of (r, w) \<Rightarrow> (r, emit WaitLoad (s\<lparr>world := w\<rparr>)))"

definition page_wait_for_selector ::
  "'w page \<Rightarrow> string \<Rightarrow> nat \<Rightarrow> 'w auth \<Rightarrow> (exc + handle option) \<times> 'w auth" where
  "page_wait_for_selector br sel t s =
     (case wait_for_selector br sel t (world s) of
        (r, w) \<Rightarrow> (r, emit (Probe sel t r) (s\<lparr>world := w\<rparr>)))"

definition page_fill :: "'w page \<Rightarrow> handle \<Rightarrow> string \<Rightarrow> 'w auth \<Rightarrow> (exc + unit) \<times> 'w auth" where
  "page_fill br h txt s =
     (case fill br h txt (world s) of (r, w) \<Rightarrow> (r, emit (Fill h txt) (s\<lparr>world := w\<rparr>)))"

definition page_click :: "'w page \<Rightarrow> handle \<Rightarrow> 'w auth \<Rightarrow> (exc + unit) \<times> 'w auth" where
  "page_click br h s =
     (case click br h (world s) of (r, w) \<Rightarrow> (r, emit (Click h) (s\<lparr>world := w\<rparr>)))"

definition context_cookies :: "'w page \<Rightarrow> 'w auth \<Rightarrow> (exc + json list) \<times> 'w auth" where
  "context_cookies br s =
     (case cookies br (world s) of (r, w) \<Rightarrow> (r, emit GetCookies (s\<lparr>world := w\<rparr>)))"

definition context_add_cookies :: "'w page \<Rightarrow> json \<Rightarrow> 'w auth \<Rightarrow> (exc + unit) \<times> 'w auth" where
  "context_add_cookies br j s =
     (case add_cookies br j (world s) of (r, w) \<Rightarrow> (r, emit (AddCookies j) (s\<lparr>world := w\<rparr>)))"

subsection \<open>The selector lists\<close>

text \<open>
  The lists are the source's, in its order. A character outside ASCII is written
  \<open><U+XXXX>\<close>, its code point; no function below looks inside a selector.
\<close>

definition email_selectors :: "string list" where
  \<open>email_selectors =
     [''input[type="email"]'',
      ''input[name*="email"]'',
      ''input[name*="mail"]'',
      ''input[id*="email"]'',
      ''input[id*="mail"]'',
      ''input[placeholder*="<U+30E1><U+30FC><U+30EB>"]'',
      ''input[placeholder*="email"]'']\<close>

definition password_selectors :: "string list" where
  \<open>password_selectors =
     [''input[type="password"]'',
      ''input[name*="password"]'',
      ''input[name*="pass"]'',
      ''input[id*="password"]'',
      ''input[id*="pass"]'',
      ''input[placeholder*="<U+30D1><U+30B9><U+30EF><U+30FC><U+30C9>"]'',
      ''input[placeholder*="password"]'']\<close>

definition login_selectors :: "string list" where
  \<open>login_selectors =
     [''button[type="submit"]'',
      ''input[type="submit"]'',
      ''button:has-text("<U+30ED><U+30B0><U+30A4><U+30F3>")'',
      ''button:has-text("login")'',
      ''input[value*="<U+30ED><U+30B0><U+30A4><U+30F3>"]'',
      ''input[value*="login"]'',
      ''[class*="login"] button'',
      ''[class*="signin"] button'']\<close>

definition login_indicators :: "string list" where
  \<open>login_indicators =
     [''[href*="logout"]'',
      ''[class*="user"]'',
      ''[class*="profile"]'',
      ''text="<U+30E6><U+30FC><U+30B6><U+30FC><U+691C><U+7D22>"'',
      ''text="<U+30DE><U+30A4><U+30DA><U+30FC><U+30B8>"'']\<close>

subsection \<open>Candidate resolution\<close>

text \<open>
  The loop the source writes out for each candidate list:
  \<^verbatim>\<open>
  x = None
  for selector in selectors:
      try:
          x = await self.page.wait_for_selector(selector, timeout=t)
          if x:
              break
      except:
          continue
  \<close>
  A probe that raises and a probe that returns \<open>None\<close> both go on to the next selector.
\<close>

fun select_first :: "'w page \<Rightarrow> string list \<Rightarrow> nat \<Rightarrow> 'w auth \<Rightarrow> handle option \<times> 'w auth" where
  "select_first br [] t s = (None, s)"
| "select_first br (selector # selectors) t s =
     (case page_wait_for_selector br selector t s of
        (Inr (Some h), s') \<Rightarrow> (Some h, s')
      | (Inr None, s') \<Rightarrow> select_first br selectors t s'
      | (Inl e, s') \<Rightarrow> select_first br selectors t s')"

subsection \<open>Login state\<close>

text \<open>Python's \<open>sub in s\<close> on strings.\<close>

fun startswith :: "string \<Rightarrow> string \<Rightarrow> bool" where
  "startswith s [] = True"
| "startswith [] (c # sub) = False"
| "startswith (d # s) (c # sub) = (d = c \<and> startswith s sub)"

fun str_in :: "string \<Rightarrow> string \<Rightarrow> bool" where
  "str_in sub [] = (sub = [])"
| "str_in sub (c # s) = (startswith (c # s) sub \<or> str_in sub s)"

text \<open>
  \<open>_is_logged_in\<close>. Reading \<open>self.page.url\<close> does not raise and the loop catches whatever a
  probe raises, so the outer handler of the source is never entered.
\<close>

definition is_logged_in :: "'w page \<Rightarrow> settings \<Rightarrow> 'w auth \<Rightarrow> bool \<times> 'w auth" where
  "is_logged_in br cfg s =
     (let current_url = url br (world s) in
      if \<not> str_in ''/login'' current_url \<and> str_in (base_url cfg) current_url then (True, s)
      else
        case select_first br login_indicators 2000 s of
          (Some element, s') \<Rightarrow> (True, s')
        | (None, s') \<Rightarrow> (False, s'))"

subsection \<open>Saving and restoring the cookies\<close>

text \<open>
  \<open>_save_session\<close> and \<open>_load_session\<close>. Both write and read
  \<open>scraping/session/cookies.json\<close> only, the file that \<open>SessionManager\<close> calls
  \<open>cookies_file\<close>, and both log an exception and return.
\<close>

definition auth_save_session :: "'w page \<Rightarrow> 'w auth \<Rightarrow> 'w auth" where
  "auth_save_session br s =
     (case context_cookies br s of
        (Inl e, s1) \<Rightarrow> log_error (SessionSaveError e) s1
      | (Inr cs, s1) \<Rightarrow>
          (case write_cookies (JArr cs) (files s1) of
             Inl e \<Rightarrow> log_error (SessionSaveError e) s1
           | Inr st \<Rightarrow> log_info SessionSaved (s1\<lparr>files := st\<rparr>)))"

definition auth_load_session :: "'w page \<Rightarrow> 'w auth \<Rightarrow> 'w auth" where
  "auth_load_session br s =
     (if cookies_file (files s) \<noteq> None then
        (case read_json (cookies_file (files s)) of
           Inl e \<Rightarrow> log_error (SessionRestoreError e) s
         | Inr cs \<Rightarrow>
             (case context_add_cookies br cs s of
                (Inl e, s1) \<Rightarrow> log_error (SessionRestoreError e) s1
              | (Inr u, s1) \<Rightarrow> log_info SessionRestored s1))
      else s)"

subsection \<open>Login\<close>

text \<open>
  \<open>login_try\<close> is the body of the \<open>try\<close> of \<open>login\<close>: \<open>Inl e\<close> when a call outside the
  candidate loops raises \<open>e\<close>, otherwise the value of the \<open>return\<close> reached. \<open>login\<close> adds
  the handler, which logs the exception and returns \<open>False\<close>.
\<close>

definition login_try ::
  "'w page \<Rightarrow> settings \<Rightarrow> string \<Rightarrow> string \<Rightarrow> 'w auth \<Rightarrow> (exc + bool) \<times> 'w auth" where
  "login_try br cfg email password s0 =
     (case page_goto br (login_url cfg) s0 of
        (Inl e, s1) \<Rightarrow> (Inl e, s1)
      | (Inr u1, s1) \<Rightarrow>
     (case page_wait_for_load_state br (log_info LoginPageAccessed s1) of
        (Inl e, s2) \<Rightarrow> (Inl e, s2)
      | (Inr u2, s2) \<Rightarrow>
     (case is_logged_in br cfg s2 of
        (True, s3) \<Rightarrow> (Inr True, log_info AlreadyLoggedIn s3)
      | (False, s3) \<Rightarrow>
     (case select_first br email_selectors 2000 s3 of
        (None, s4) \<Rightarrow> (Inr False, log_error EmailFieldNotFound s4)
      | (Some email_input, s4) \<Rightarrow>
     (case page_fill br email_input email s4 of
        (Inl e, s5) \<Rightarrow> (Inl e, s5)
      | (Inr u5, s5) \<Rightarrow>
     (case select_first br password_selectors 2000 (log_info EmailEntered s5) of
        (None, s6) \<Rightarrow> (Inr False, log_error PasswordFieldNotFound s6)
      | (Some password_input, s6) \<Rightarrow>
     (case page_fill br password_input password s6 of
        (Inl e, s7) \<Rightarrow> (Inl e, s7)
      | (Inr u7, s7) \<Rightarrow>
     (case select_first br login_selectors 2000 (log_info PasswordEntered s7) of
        (None, s8) \<Rightarrow> (Inr False, log_error LoginButtonNotFound s8)
      | (Some login_button, s8) \<Rightarrow>
     (case page_click br login_button s8 of
        (Inl e, s9) \<Rightarrow> (Inl e, s9)
      | (Inr u9, s9) \<Rightarrow>
     (case page_wait_for_load_state br (log_info LoginButtonClicked s9) of
        (Inl e, s10) \<Rightarrow> (Inl e, s10)
      | (Inr u10, s10) \<Rightarrow>
     (case is_logged_in br cfg s10 of
        (True, s11) \<Rightarrow> (Inr True, auth_save_session br (log_info LoginSucceeded s11))
      | (False, s11) \<Rightarrow> (Inr False, log_error LoginFailed s11))))))))))))"

definition login :: "'w page \<Rightarrow> settings \<Rightarrow> string \<Rightarrow> string \<Rightarrow> 'w auth \<Rightarrow> bool \<times> 'w auth" where
  "login br cfg email password s0 =
     (case login_try br cfg email password s0 of
        (Inl e, s) \<Rightarrow> (False, log_error (LoginException e) s)
      | (Inr b, s) \<Rightarrow> (b, s))"

section \<open>Reading a stored record\<close>


definition stored_time :: "pylib \<Rightarrow> store \<Rightarrow> string \<Rightarrow> datetime option" where
  "stored_time lib st k =
     (case session_info_file st of
        Some (Json (JObj d)) \<Rightarrow>
          (case fromisoformat_json lib (case dict_get d k of None \<Rightarrow> JStr '''' | Some v \<Rightarrow> v) of
             Inl e \<Rightarrow> None
           | Inr dt \<Rightarrow> Some dt)
      | _ \<Rightarrow> None)"

text \<open>
  The spec's validity of a record, in its words: the metadata exists, parses, and
  \<open>now \<le> expiresAt\<close>.
\<close>

definition metadata_valid :: "pylib \<Rightarrow> store \<Rightarrow> int \<Rightarrow> bool" where
  "metadata_valid lib st now =
     (case stored_time lib st ''expires_at'' of Some (Naive t) \<Rightarrow> now \<le> t | _ \<Rightarrow> False)"

section \<open>Reading a trace\<close>

text \<open>
  The outcome of a probe is a hit when it returned an element. \<open>fills_and_clicks\<close> keeps the
  calls that act on the page; \<open>submit_attempts\<close> keeps the probes for the submit control
  and the clicks; \<open>is_failure_record\<close> holds of the five error records \<open>login\<close> writes
  before it returns \<open>False\<close>.
\<close>

definition is_hit :: "exc + handle option \<Rightarrow> bool" where
  "is_hit r = (case r of Inr (Some h) \<Rightarrow> True | _ \<Rightarrow> False)"

fun is_fill_or_click :: "event \<Rightarrow> bool" where
  "is_fill_or_click (Fill h txt) = True"
| "is_fill_or_click (Click h) = True"
| "is_fill_or_click e = False"

definition fills_and_clicks :: "event list \<Rightarrow> event list" where
  "fills_and_clicks tr = filter is_fill_or_click tr"

fun is_submit_attempt :: "event \<Rightarrow> bool" where
  "is_submit_attempt (Click h) = True"
| "is_submit_attempt (Probe sel t r) = (sel \<in> set login_selectors)"
| "is_submit_attempt e = False"

definition submit_attempts :: "event list \<Rightarrow> event list" where
  "submit_attempts tr = filter is_submit_attempt tr"


section \<open>Concrete instances\<close>

text \<open>
  A stand-in for the two library functions, used where a theorem is applied to concrete
  data: a naive value is written as its signed decimal count, and only such strings parse.
\<close>

definition digit_char :: "nat \<Rightarrow> char" where
  "digit_char d = ''0123456789'' ! d"

definition digit_val :: "char \<Rightarrow> nat option" where
  "digit_val c = map_of (zip ''0123456789'' [0 ..< 10]) c"

fun show_nat :: "nat \<Rightarrow> string" where
  "show_nat n = (if n < 10 then [digit_char n] else show_nat (n div 10) @ [digit_char (n mod 10)])"

declare show_nat.simps [simp del]

fun read_nat :: "nat \<Rightarrow> string \<Rightarrow> nat option" where
  "read_nat acc [] = Some acc"
| "read_nat acc (c # cs) =
     (case digit_val c of None \<Rightarrow> None | Some d \<Rightarrow> read_nat (acc * 10 + d) cs)"

definition demo_isoformat :: "datetime \<Rightarrow> string" where
  "demo_isoformat d =
     (case d of
        Naive t \<Rightarrow> (if t < 0 then ''-'' @ show_nat (nat (- t)) else ''+'' @ show_nat (nat t))
      | Aware t off \<Rightarrow> ''aware'')"

definition demo_fromisoformat :: "string \<Rightarrow> exc + datetime" where
  "demo_fromisoformat s =
     (case s of
        [] \<Rightarrow> Inl ValueError
      | c # cs \<Rightarrow>
          if cs = [] then Inl ValueError
          else if c = CHR ''+'' then
            (case read_nat 0 cs of None \<Rightarrow> Inl ValueError | Some n \<Rightarrow> Inr (Naive (int n)))
          else if c = CHR ''-'' then
            (case read_nat 0 cs of None \<Rightarrow> Inl ValueError | Some n \<Rightarrow> Inr (Naive (- int n)))
          else Inl ValueError)"

definition demo_lib :: pylib where
  "demo_lib = \<lparr>isoformat = demo_isoformat, fromisoformat = demo_fromisoformat\<rparr>"

definition demo_cfg :: settings where
  "demo_cfg =
     \<lparr>session_timeout = 3600,
      login_url = ''https://example.test/login'',
      base_url = ''https://example.test''\<rparr>"

definition empty_store :: store where
  "empty_store =
     \<lparr>cookies_file = None, session_info_file = None,
      cookies_writable = True, session_info_writable = True\<rparr>"

definition demo_cookie :: json where
  "demo_cookie = JObj [(''name'', JStr ''sid''), (''value'', JStr ''abc''), (''secure'', JBool True)]"

text \<open>
  A page whose state is its current URL: \<open>goto\<close> lands on \<open>landing\<close>, a click leads to
  \<open>after_click\<close>, and a selector resolves to the handle \<open>elems\<close> gives it and times out
  otherwise.
\<close>

definition demo_page :: "string \<Rightarrow> string \<Rightarrow> (string \<times> handle) list \<Rightarrow> string page" where
  "demo_page landing after_click elems =
     \<lparr>goto = (\<lambda>u w. (Inr (), landing)),
      wait_for_load_state = (\<lambda>w. (Inr (), w)),
      url = (\<lambda>w. w),
      wait_for_selector =
        (\<lambda>sel t w. (case map_of elems sel of None \<Rightarrow> Inl TimeoutError | Some h \<Rightarrow> Inr (Some h), w)),
      fill = (\<lambda>h txt w. (Inr (), w)),
      click = (\<lambda>h w. (Inr (), after_click)),
      cookies = (\<lambda>w. (Inr [demo_cookie], w)),
      add_cookies = (\<lambda>j w. (Inr (), w))\<rparr>"

definition demo_start :: "store \<Rightarrow> string auth" where
  "demo_start st = \<lparr>world = ''about:blank'', files = st, trace = []\<rparr>"

text \<open>
  A store holding a record that expires at 100, with a cookie file that does not parse,
  and the same record with a cookie file that does.
\<close>

definition torn_store :: store where
  "torn_store =
     \<lparr>cookies_file = Some Garbage,
      session_info_file = Some (Json (JObj [(''expires_at'', JStr ''+100'')])),
      cookies_writable = True, session_info_writable = True\<rparr>"

definition live_store :: store where
  "live_store = torn_store\<lparr>cookies_file := Some (Json (JArr [demo_cookie]))\<rparr>"

text \<open>
  Four sites. \<open>logged_in_page\<close> redirects the login URL to a page of an open session.
  \<open>rejecting_page\<close> shows a complete login form and, after the click, the login form
  again. \<open>no_password_page\<close> has an email field only, \<open>no_email_page\<close> no field at all.
\<close>

definition login_form :: "(string \<times> handle) list" where
  \<open>login_form =
     [(''input[type="email"]'', 1), (''input[type="password"]'', 2), (''button[type="submit"]'', 3)]\<close>

definition logged_in_page :: "string page" where
  "logged_in_page = demo_page ''https://example.test/home'' ''https://example.test/home'' []"

definition rejecting_page :: "string page" where
  "rejecting_page =
     demo_page ''https://example.test/login'' ''https://example.test/login'' login_form"

definition no_password_page :: "string page" where
  "no_password_page =
     demo_page ''https://example.test/login'' ''https://example.test/login'' (take 1 login_form)"

definition no_email_page :: "string page" where
  "no_email_page = demo_page ''https://example.test/login'' ''https://example.test/login'' []"

text \<open>A store with a cookie file and no metadata, and a store that cannot be written.\<close>

definition cookies_only_store :: store where
  "cookies_only_store = empty_store\<lparr>cookies_file := Some (Json (JArr [demo_cookie]))\<rparr>"


section \<open>Properties\<close>

subsection \<open>Auxiliary facts\<close>







subsection \<open>Touching an absent record\<close>

text \<open>
  C10. When the metadata file does not exist, \<open>update_last_activity\<close> returns at its first
  test: the body of its \<open>try\<close> raises nothing, and the store it leaves is the store it
  found, so no file is created and none is changed.
\<close>

theorem touch_without_metadata_is_noop:
  "session_info_file st = None \<Longrightarrow>
     update_last_activity_try lib now st = Inr st \<and> update_last_activity lib now st = st"
  by (simp add: update_last_activity_def update_last_activity_try_def)

theorem touch_without_metadata_is_noop_witness:
  "session_info_file (empty_store\<lparr>cookies_file := Some (Json (JArr [demo_cookie]))\<rparr>) = None \<and>
   update_last_activity_try demo_lib 7 (empty_store\<lparr>cookies_file := Some (Json (JArr [demo_cookie]))\<rparr>)
     = Inr (empty_store\<lparr>cookies_file := Some (Json (JArr [demo_cookie]))\<rparr>) \<and>
   update_last_activity demo_lib 7 (empty_store\<lparr>cookies_file := Some (Json (JArr [demo_cookie]))\<rparr>)
     = empty_store\<lparr>cookies_file := Some (Json (JArr [demo_cookie]))\<rparr>"
  using touch_without_metadata_is_noop
    [of "empty_store\<lparr>cookies_file := Some (Json (JArr [demo_cookie]))\<rparr>" demo_lib 7]
  by (simp add: empty_store_def)

subsection \<open>Validity, loading and status\<close>

lemma is_session_valid_iff: "is_session_valid lib st now = metadata_valid lib st now"
  by (auto simp: is_session_valid_def is_session_valid_try_def metadata_valid_def stored_time_def
      read_json_def json_get_def dt_gt_def
      split: option.splits filedata.splits json.splits sum.splits datetime.splits)

lemma load_when_invalid: "\<not> is_session_valid lib st now \<Longrightarrow> load_session lib st now = None"
  by (simp add: load_session_def load_session_try_def)

lemma status_when_invalid:
  "\<not> is_session_valid lib st now1 \<Longrightarrow> get_session_status lib st now1 now2 = ExpiredOrMissing"
  by (simp add: get_session_status_def get_session_status_try_def)

lemma load_when_valid:
  "is_session_valid lib st now \<Longrightarrow>
     load_session lib st now =
       (case (session_info_file st, cookies_file st) of
          (Some (Json doc), None) \<Rightarrow> Some (JArr [], doc)
        | (Some (Json doc), Some (Json c)) \<Rightarrow> Some (c, doc)
        | _ \<Rightarrow> None)"
proof -
  assume v: "is_session_valid lib st now"
  then obtain d where "session_info_file st = Some (Json (JObj d))"
    by (auto simp: is_session_valid_iff metadata_valid_def stored_time_def
        split: option.splits filedata.splits json.splits)
  with v show ?thesis
    by (simp add: load_session_def load_session_try_def read_json_def
        split: option.splits filedata.splits)
qed

text \<open>
  C7, as stated, fails: with a record that is still valid at \<open>now = 50\<close> (it expires at
  100) and a cookie file that does not parse, \<open>load_session\<close> returns \<open>None\<close>, not the cookies
  and the metadata.
\<close>

theorem load_session_garbage_cookies_counterexample:
  "metadata_valid demo_lib torn_store 50 \<and> load_session demo_lib torn_store 50 = None"
  by (simp add: metadata_valid_def stored_time_def load_session_def load_session_try_def
      is_session_valid_def is_session_valid_try_def read_json_def json_get_def
      fromisoformat_json_def dt_gt_def demo_lib_def demo_fromisoformat_def digit_val_def upt_rec
      torn_store_def)

text \<open>
  C7, amended. \<open>load_session\<close> returns \<open>None\<close> when the metadata is missing, does not parse
  or has \<open>now > expires_at\<close>, and also when the cookie file exists but cannot be read as
  JSON; otherwise it returns the metadata with the cookies of the cookie file, or with the
  empty list when there is no cookie file. A record whose \<open>expires_at\<close> is in the past is
  reported invalid by \<open>load_session\<close> and by \<open>get_session_status\<close>, whatever the cookie file
  holds.
\<close>

theorem load_session_outcome:
  "load_session lib st now =
     (if metadata_valid lib st now then
        (case (session_info_file st, cookies_file st) of
           (Some (Json doc), None) \<Rightarrow> Some (JArr [], doc)
         | (Some (Json doc), Some (Json c)) \<Rightarrow> Some (c, doc)
         | _ \<Rightarrow> None)
      else None) \<and>
   (stored_time lib st ''expires_at'' = Some (Naive e) \<and> now > e \<longrightarrow>
      load_session lib st now = None \<and> \<not> is_valid (get_session_status lib st now now2))"
proof (intro conjI impI)
  show "load_session lib st now =
     (if metadata_valid lib st now then
        (case (session_info_file st, cookies_file st) of
           (Some (Json doc), None) \<Rightarrow> Some (JArr [], doc)
         | (Some (Json doc), Some (Json c)) \<Rightarrow> Some (c, doc)
         | _ \<Rightarrow> None)
      else None)"
  proof (cases "is_session_valid lib st now")
    case True
    then show ?thesis using load_when_valid [OF True] by (simp add: is_session_valid_iff)
  next
    case False
    then show ?thesis using load_when_invalid [OF False] by (simp add: is_session_valid_iff)
  qed
next
  assume "stored_time lib st ''expires_at'' = Some (Naive e) \<and> now > e"
  then have n: "\<not> is_session_valid lib st now"
    by (simp add: is_session_valid_iff metadata_valid_def)
  show "load_session lib st now = None" using n by (rule load_when_invalid)
  show "\<not> is_valid (get_session_status lib st now now2)"
    using status_when_invalid [OF n] by simp
qed

theorem load_session_outcome_witness:
  "stored_time demo_lib live_store ''expires_at'' = Some (Naive 100) \<and> (200::int) > 100 \<and>
   load_session demo_lib live_store 200 = None \<and>
   \<not> is_valid (get_session_status demo_lib live_store 200 201)"
proof -
  have h: "stored_time demo_lib live_store ''expires_at'' = Some (Naive 100)"
    by (simp add: stored_time_def fromisoformat_json_def demo_lib_def demo_fromisoformat_def
        digit_val_def upt_rec live_store_def torn_store_def)
  have "stored_time demo_lib live_store ''expires_at'' = Some (Naive 100) \<and> (200::int) > 100 \<longrightarrow>
          load_session demo_lib live_store 200 = None \<and>
          \<not> is_valid (get_session_status demo_lib live_store 200 201)"
    using load_session_outcome [of demo_lib live_store 200 100 201] by (rule conjunct2)
  with h show ?thesis by simp
qed

subsection \<open>Saving, then loading\<close>





subsection \<open>The expiry window\<close>






subsection \<open>What each call leaves behind\<close>

lemma emit_simps [simp]:
  "trace (emit e s) = trace s @ [e]" "files (emit e s) = files s" "world (emit e s) = world s"
  by (simp_all add: emit_def)

lemma log_simps [simp]:
  "trace (log_info m s) = trace s @ [LogInfo m]" "files (log_info m s) = files s"
  "trace (log_error m s) = trace s @ [LogError m]" "files (log_error m s) = files s"
  by (simp_all add: log_info_def log_error_def)

lemma page_goto_effect:
  "page_goto br u s = (r, s') \<Longrightarrow> files s' = files s \<and> trace s' = trace s @ [Goto u]"
  by (auto simp: page_goto_def split: prod.splits)

lemma page_wait_effect:
  "page_wait_for_load_state br s = (r, s') \<Longrightarrow> files s' = files s \<and> trace s' = trace s @ [WaitLoad]"
  by (auto simp: page_wait_for_load_state_def split: prod.splits)

lemma page_probe_effect:
  "page_wait_for_selector br sel t s = (r, s') \<Longrightarrow>
     files s' = files s \<and> trace s' = trace s @ [Probe sel t r]"
  by (auto simp: page_wait_for_selector_def split: prod.splits)



lemma select_first_effect:
  "select_first br sels t s = (r, s') \<Longrightarrow>
     files s' = files s \<and>
     (\<exists>rs. trace s' = trace s @ map (\<lambda>(sel, x). Probe sel t x) (zip sels rs))"
proof (induction sels arbitrary: s)
  case Nil
  then show ?case by auto
next
  case (Cons sel sels)
  obtain x s1 where p: "page_wait_for_selector br sel t s = (x, s1)"
    by (cases "page_wait_for_selector br sel t s")
  then have e: "files s1 = files s" "trace s1 = trace s @ [Probe sel t x]"
    by (simp_all add: page_probe_effect)
  show ?case
  proof (cases "is_hit x")
    case True
    then obtain h where x: "x = Inr (Some h)"
      by (auto simp: is_hit_def split: sum.splits option.splits)
    with Cons.prems p have "s' = s1" by simp
    with e show ?thesis by (auto intro: exI [of _ "[x]"])
  next
    case False
    with Cons.prems p have "select_first br sels t s1 = (r, s')"
      by (auto simp: is_hit_def split: sum.splits option.splits)
    from Cons.IH [OF this] obtain rs where
      "files s' = files s1" "trace s' = trace s1 @ map (\<lambda>(sel, x). Probe sel t x) (zip sels rs)"
      by blast
    with e show ?thesis by (auto intro: exI [of _ "x # rs"])
  qed
qed

lemma select_first_files: "select_first br sels t s = (r, s') \<Longrightarrow> files s' = files s"
  by (simp add: select_first_effect)

lemma fills_of_probes [simp]:
  "fills_and_clicks (tr @ map (\<lambda>(sel, x). Probe sel t x) ps) = fills_and_clicks tr"
  by (induction ps) (auto simp: fills_and_clicks_def)

lemma select_first_fills:
  "select_first br sels t s = (r, s') \<Longrightarrow> fills_and_clicks (trace s') = fills_and_clicks (trace s)"
  using select_first_effect [of br sels t s r s'] by auto

lemma submit_of_probes:
  "set sels \<inter> set login_selectors = {} \<Longrightarrow>
   submit_attempts (tr @ map (\<lambda>(sel, x). Probe sel t x) (zip sels rs)) = submit_attempts tr"
proof -
  assume d: "set sels \<inter> set login_selectors = {}"
  have "\<forall>p \<in> set (zip sels rs). fst p \<notin> set login_selectors"
    using d by (auto dest: set_zip_leftD)
  then have "filter is_submit_attempt (map (\<lambda>(sel, x). Probe sel t x) (zip sels rs)) = []"
    by (auto simp: filter_empty_conv)
  then show ?thesis by (simp add: submit_attempts_def)
qed

lemma select_first_submit:
  "select_first br sels t s = (r, s') \<Longrightarrow> set sels \<inter> set login_selectors = {} \<Longrightarrow>
     submit_attempts (trace s') = submit_attempts (trace s)"
  using select_first_effect [of br sels t s r s'] by (auto simp: submit_of_probes)

lemma is_logged_in_effect:
  "is_logged_in br cfg s = (b, s') \<Longrightarrow>
     files s' = files s \<and> fills_and_clicks (trace s') = fills_and_clicks (trace s) \<and>
     (set login_indicators \<inter> set login_selectors = {} \<longrightarrow>
        submit_attempts (trace s') = submit_attempts (trace s))"
  by (auto simp: is_logged_in_def Let_def select_first_files select_first_fills select_first_submit
      split: if_splits prod.splits option.splits)


lemmas run_eval = login_def login_try_def is_logged_in_def auth_save_session_def
  auth_load_session_def page_goto_def page_wait_for_load_state_def page_wait_for_selector_def
  page_fill_def page_click_def context_cookies_def context_add_cookies_def demo_page_def
  demo_start_def emit_def log_info_def log_error_def email_selectors_def password_selectors_def
  login_selectors_def login_indicators_def login_form_def logged_in_page_def rejecting_page_def
  no_password_page_def no_email_page_def demo_cfg_def empty_store_def Let_def

subsection \<open>Candidate resolution\<close>

text \<open>
  C6. A run of the candidate loop over \<open>sels\<close> makes its probes on an initial segment of
  \<open>sels\<close>, one probe per selector and in the order of the list (\<open>rs\<close> are their outcomes).
  When it returns an element, the last probe made is the one that returned it and no
  earlier probe was a hit, so nothing is probed after the first match. When it returns
  \<open>None\<close>, every selector of the list has been probed and none was a hit.
\<close>

theorem select_first_in_order:
  "select_first br sels t s = (r, s') \<Longrightarrow>
     \<exists>rs. trace s' = trace s @ map (\<lambda>(sel, x). Probe sel t x) (zip sels rs) \<and>
          length rs \<le> length sels \<and>
          (\<forall>x \<in> set (butlast rs). \<not> is_hit x) \<and>
          (case r of
             None \<Rightarrow> length rs = length sels \<and> (\<forall>x \<in> set rs. \<not> is_hit x)
           | Some h \<Rightarrow> rs \<noteq> [] \<and> last rs = Inr (Some h))"
proof (induction sels arbitrary: s)
  case Nil
  then show ?case by auto
next
  case (Cons sel sels)
  obtain x s1 where p: "page_wait_for_selector br sel t s = (x, s1)"
    by (cases "page_wait_for_selector br sel t s")
  then have tr: "trace s1 = trace s @ [Probe sel t x]"
    by (simp add: page_probe_effect)
  show ?case
  proof (cases "is_hit x")
    case True
    then obtain h where x: "x = Inr (Some h)"
      by (auto simp: is_hit_def split: sum.splits option.splits)
    with Cons.prems p have "r = Some h" "s' = s1" by simp_all
    with tr x show ?thesis
      by (intro exI [of _ "[x]"]) simp
  next
    case False
    with Cons.prems p have "select_first br sels t s1 = (r, s')"
      by (auto simp: is_hit_def split: sum.splits option.splits)
    from Cons.IH [OF this] obtain rs where
      rs: "trace s' = trace s1 @ map (\<lambda>(sel, x). Probe sel t x) (zip sels rs)"
        "length rs \<le> length sels" "\<forall>x \<in> set (butlast rs). \<not> is_hit x"
        "case r of None \<Rightarrow> length rs = length sels \<and> (\<forall>x \<in> set rs. \<not> is_hit x)
           | Some h \<Rightarrow> rs \<noteq> [] \<and> last rs = Inr (Some h)"
      by blast
    show ?thesis
    proof (intro exI [of _ "x # rs"] conjI)
      show "trace s' = trace s @ map (\<lambda>(sel, x). Probe sel t x) (zip (sel # sels) (x # rs))"
        using rs(1) tr by simp
      show "length (x # rs) \<le> length (sel # sels)" using rs(2) by simp
      show "\<forall>y \<in> set (butlast (x # rs)). \<not> is_hit y"
        using rs(3) False by (auto split: if_splits)
      show "case r of None \<Rightarrow> length (x # rs) = length (sel # sels) \<and> (\<forall>y \<in> set (x # rs). \<not> is_hit y)
           | Some h \<Rightarrow> x # rs \<noteq> [] \<and> last (x # rs) = Inr (Some h)"
        using rs(4) False by (auto split: option.splits)
    qed
  qed
qed

theorem select_first_in_order_witness:
  "select_first (demo_page [] [] [(''b'', 5)]) [''a'', ''b'', ''c''] 2000 (demo_start empty_store) =
     (Some 5,
      (demo_start empty_store)
        \<lparr>trace := [Probe ''a'' 2000 (Inl TimeoutError), Probe ''b'' 2000 (Inr (Some 5))]\<rparr>) \<and>
   (\<exists>rs. trace ((demo_start empty_store)
              \<lparr>trace := [Probe ''a'' 2000 (Inl TimeoutError), Probe ''b'' 2000 (Inr (Some 5))]\<rparr>) =
           trace (demo_start empty_store) @
             map (\<lambda>(sel, x). Probe sel 2000 x) (zip [''a'', ''b'', ''c''] rs) \<and>
         length rs \<le> length [''a'', ''b'', ''c''] \<and>
         (\<forall>x \<in> set (butlast rs). \<not> is_hit x) \<and>
         (case Some 5 of
            None \<Rightarrow> length rs = length [''a'', ''b'', ''c''] \<and> (\<forall>x \<in> set rs. \<not> is_hit x)
          | Some h \<Rightarrow> rs \<noteq> [] \<and> last rs = Inr (Some h)))"
proof -
  have h: "select_first (demo_page [] [] [(''b'', 5)]) [''a'', ''b'', ''c''] 2000
             (demo_start empty_store) =
           (Some 5,
            (demo_start empty_store)
              \<lparr>trace := [Probe ''a'' 2000 (Inl TimeoutError), Probe ''b'' 2000 (Inr (Some 5))]\<rparr>)"
    by (simp add: page_wait_for_selector_def demo_page_def demo_start_def emit_def)
  from h select_first_in_order [OF h] show ?thesis by (rule conjI)
qed

subsection \<open>Runs of login\<close>

text \<open>
  C3. In a run of \<open>login\<close> where the navigation and the wait succeed and \<open>_is_logged_in\<close>
  then answers \<open>True\<close>, \<open>login\<close> returns \<open>True\<close> after logging that the session is already
  open, and the run has made no \<open>fill\<close> and no \<open>click\<close>: the fills and clicks of the trace
  are those it had before the call.
\<close>

theorem login_idempotent:
  assumes "page_goto br (login_url cfg) s0 = (Inr (), s1)"
    and "page_wait_for_load_state br (log_info LoginPageAccessed s1) = (Inr (), s2)"
    and "is_logged_in br cfg s2 = (True, s3)"
  shows "login br cfg email password s0 = (True, log_info AlreadyLoggedIn s3) \<and>
         fills_and_clicks (trace (log_info AlreadyLoggedIn s3)) = fills_and_clicks (trace s0)"
proof -
  have r: "login br cfg email password s0 = (True, log_info AlreadyLoggedIn s3)"
    using assms by (simp add: login_def login_try_def)
  have "fills_and_clicks (trace s1) = fills_and_clicks (trace s0)"
    using page_goto_effect [OF assms(1)] by (simp add: fills_and_clicks_def)
  moreover have "fills_and_clicks (trace s2) = fills_and_clicks (trace s1)"
    using page_wait_effect [OF assms(2)] by (simp add: fills_and_clicks_def)
  moreover have "fills_and_clicks (trace s3) = fills_and_clicks (trace s2)"
    using is_logged_in_effect [OF assms(3)] by simp
  ultimately show ?thesis using r by (simp add: fills_and_clicks_def)
qed

theorem login_idempotent_witness:
  "fst (login logged_in_page demo_cfg ''user@example.test'' ''secret'' (demo_start empty_store)) =
     True \<and>
   fills_and_clicks
     (trace (snd (login logged_in_page demo_cfg ''user@example.test'' ''secret''
        (demo_start empty_store)))) = []"
proof -
  let ?P = logged_in_page
  let ?s0 = "demo_start empty_store"
  define s1 where "s1 = snd (page_goto ?P (login_url demo_cfg) ?s0)"
  define s2 where "s2 = snd (page_wait_for_load_state ?P (log_info LoginPageAccessed s1))"
  define s3 where "s3 = snd (is_logged_in ?P demo_cfg s2)"
  note defs = s1_def s2_def s3_def
  have h1: "page_goto ?P (login_url demo_cfg) ?s0 = (Inr (), s1)"
    by (simp add: defs run_eval)
  have h2: "page_wait_for_load_state ?P (log_info LoginPageAccessed s1) = (Inr (), s2)"
    by (simp add: defs run_eval)
  have h3: "is_logged_in ?P demo_cfg s2 = (True, s3)"
    by (simp add: defs run_eval)
  have "fills_and_clicks (trace ?s0) = []"
    by (simp add: demo_start_def fills_and_clicks_def)
  then show ?thesis
    using login_idempotent [OF h1 h2 h3, of "''user@example.test''" "''secret''"] by simp
qed





subsection \<open>Outcomes and failures\<close>






subsection \<open>Which cookies are restored\<close>

lemma auth_load_session_restores:
  "cookies_file (files s) = Some (Json cs) \<Longrightarrow>
     files (auth_load_session br s) = files s \<and>
     (\<exists>e. trace (auth_load_session br s) = trace s @ [AddCookies cs, e])"
  by (auto simp: auth_load_session_def read_json_def context_add_cookies_def
      split: prod.splits sum.splits)

text \<open>
  C2, as stated, fails for the authenticator: on a store that holds a cookie file and no
  metadata, so that no record is valid, \<open>_load_session\<close> adds the cookies of the file to the
  browser context.
\<close>

theorem auth_load_session_counterexample:
  "\<not> metadata_valid demo_lib cookies_only_store 0 \<and>
   trace (auth_load_session logged_in_page (demo_start cookies_only_store)) =
     [AddCookies (JArr [demo_cookie]), LogInfo SessionRestored]"
  by (simp add: metadata_valid_def stored_time_def cookies_only_store_def empty_store_def
      auth_load_session_def read_json_def context_add_cookies_def logged_in_page_def
      demo_page_def demo_start_def emit_def log_info_def)

text \<open>
  C2, amended. The metadata decides for \<open>SessionManager\<close>: \<open>load_session\<close> returns \<open>None\<close>
  whenever the metadata is missing, does not parse or has expired, whatever the cookie
  file holds. It does not decide for the authenticator: \<open>_load_session\<close> never reads the
  metadata, and whenever the cookie file exists and parses it adds the cookies of the file
  to the browser context, leaving both files as they were.
\<close>

theorem metadata_decides_load_not_restore:
  "(\<not> metadata_valid lib st now \<longrightarrow> load_session lib st now = None) \<and>
   (cookies_file (files s) = Some (Json cs) \<longrightarrow>
      files (auth_load_session br s) = files s \<and>
      (\<exists>e. trace (auth_load_session br s) = trace s @ [AddCookies cs, e]))"
  using load_when_invalid [of lib st now] auth_load_session_restores [of s cs br]
  by (simp add: is_session_valid_iff)

theorem metadata_decides_load_not_restore_witness:
  "\<not> metadata_valid demo_lib cookies_only_store 0 \<and>
   cookies_file (files (demo_start cookies_only_store)) = Some (Json (JArr [demo_cookie])) \<and>
   load_session demo_lib cookies_only_store 0 = None \<and>
   files (auth_load_session logged_in_page (demo_start cookies_only_store)) =
     files (demo_start cookies_only_store) \<and>
   (\<exists>e. trace (auth_load_session logged_in_page (demo_start cookies_only_store)) =
          trace (demo_start cookies_only_store) @ [AddCookies (JArr [demo_cookie]), e])"
proof -
  have h1: "\<not> metadata_valid demo_lib cookies_only_store 0"
    by (simp add: metadata_valid_def stored_time_def cookies_only_store_def empty_store_def)
  have h2: "cookies_file (files (demo_start cookies_only_store)) = Some (Json (JArr [demo_cookie]))"
    by (simp add: demo_start_def cookies_only_store_def)
  show ?thesis
    using h1 h2
      metadata_decides_load_not_restore
        [of demo_lib cookies_only_store 0 "demo_start cookies_only_store" "JArr [demo_cookie]"
            logged_in_page]
    by blast
qed

end
